theory Spec2Isabelle
  imports Complex_Main "HOL-Library.Word"
begin

section \<open>The image preprocessor: centred square crop\<close>

text \<open>
  The notebook \<^verbatim>\<open>train.ipynb\<close> defines \<^verbatim>\<open>image_file_to_tensor(file)\<close>. Its first
  step reads \<^verbatim>\<open>width, height = image.size\<close> and computes the four crop bounds:
  \<^verbatim>\<open>
    if width > height:
        left = (width - height) // 2
        right = (width + height) // 2
        top = 0
        bottom = height
    else:
        left = 0
        right = width
        top = (height - width) // 2
        bottom = (height + width) // 2
  \<close>
  Python integers are unbounded and \<^verbatim>\<open>//\<close> rounds towards minus infinity, as \<open>div\<close>
  on \<open>int\<close> does. The bounds are kept in the order of the tuple handed to
  \<^verbatim>\<open>image.crop((left, top, right, bottom))\<close>.
\<close>

definition crop_box :: "int \<Rightarrow> int \<Rightarrow> int \<times> int \<times> int \<times> int" where
  "crop_box width height =
     (if width > height
      then ((width - height) div 2, 0, (width + height) div 2, height)
      else (0, (height - width) div 2, width, (height + width) div 2))"

section \<open>Errors\<close>

text \<open>
  Every exception the notebook can raise is a value. \<open>OSError\<close> stands for the
  failures of \<^verbatim>\<open>Image.open\<close> (a missing file, a file that is not an image),
  \<open>RuntimeError\<close> for a failure inside the external training runtime.
\<close>

datatype error = OSError | ValueError | IndexError | KeyError | RuntimeError

text \<open>Python's \<^verbatim>\<open>xs[index]\<close> for an index taken from \<^verbatim>\<open>range(n)\<close>.\<close>

definition list_get :: "'a list \<Rightarrow> nat \<Rightarrow> error + 'a" where
  "list_get xs index = (if index < length xs then Inr (xs ! index) else Inl IndexError)"

text \<open>Python's \<^verbatim>\<open>d[key]\<close> on a dictionary kept as an association list.\<close>

definition dict_get :: "('k \<times> 'v) list \<Rightarrow> 'k \<Rightarrow> error + 'v" where
  "dict_get d key = (case map_of d key of None \<Rightarrow> Inl KeyError | Some v \<Rightarrow> Inr v)"

section \<open>The files the notebook reads\<close>

text \<open>
  A decoded image, as the notebook sees a PIL image: \<^verbatim>\<open>image.size\<close> is
  \<open>(width, height)\<close>, the mode fixes the number of bands (1 for L and P, 2 for LA,
  3 for RGB, 4 for RGBA and CMYK), and a pixel is read at column \<open>x\<close>, row \<open>y\<close> and
  band \<open>c\<close>. Every mode with more than one band stores 8 bits per band.
\<close>

record image =
  im_size :: "int \<times> int"
  im_bands :: nat
  im_px :: "int \<Rightarrow> int \<Rightarrow> nat \<Rightarrow> 8 word"

text \<open>
  The file system: \<open>listdir\<close> gives the entries of a directory in the order the
  operating system lists them (\<open>None\<close> when the directory does not exist), and
  \<open>decode\<close> gives the image stored in a file (\<open>None\<close> when the file is missing
  or is not an image).
\<close>

record filesystem =
  listdir :: "string \<Rightarrow> string list option"
  decode :: "string \<Rightarrow> image option"

text \<open>
  \<^verbatim>\<open>glob.glob(dir + "/*")\<close>: the entries of the directory whose names do not start
  with a dot, each joined to the directory; the empty list, and no exception, when
  the directory does not exist.
\<close>

definition glob_star :: "filesystem \<Rightarrow> string \<Rightarrow> string list" where
  "glob_star fs dir =
     (case listdir fs dir of
        None \<Rightarrow> []
      | Some names \<Rightarrow>
          map (\<lambda>name. dir @ ''/'' @ name)
            (filter (\<lambda>name. name \<noteq> [] \<and> hd name \<noteq> CHR ''.'') names))"

text \<open>
  \<^verbatim>\<open>load_dataset_files()\<close> fills a dictionary whose keys were inserted in the order
  dog, cat, elephant, cow. A Python dictionary iterates in insertion order, and
  assigning to an existing key keeps its place, so the dictionary is an
  association list in that order.
\<close>

definition load_dataset_files :: "filesystem \<Rightarrow> (string \<times> string list) list" where
  "load_dataset_files fs =
     (let animals = [(''dog'', [] :: string list), (''cat'', []), (''elephant'', []), (''cow'', [])]
      in map (\<lambda>(animal, _). (animal, glob_star fs (''data/images/'' @ animal))) animals)"

section \<open>PIL and numpy operations used by the preprocessor\<close>

definition Image_open :: "filesystem \<Rightarrow> string \<Rightarrow> error + image" where
  "Image_open fs file = (case decode fs file of None \<Rightarrow> Inl OSError | Some im \<Rightarrow> Inr im)"

text \<open>
  \<^verbatim>\<open>image.crop((left, top, right, bottom))\<close> rejects a box whose right edge is left
  of its left edge, or whose bottom is above its top; otherwise the result has size
  \<open>(right - left, bottom - top)\<close>, and a pixel outside the source reads as 0.
\<close>

definition Image_crop :: "image \<Rightarrow> int \<times> int \<times> int \<times> int \<Rightarrow> error + image" where
  "Image_crop im box =
     (case box of (l, t, r, b) \<Rightarrow>
        if r < l then Inl ValueError
        else if b < t then Inl ValueError
        else Inr \<lparr>im_size = (r - l, b - t), im_bands = im_bands im,
                  im_px = (\<lambda>x y c.
                     if 0 \<le> x + l \<and> x + l < fst (im_size im) \<and> 0 \<le> y + t \<and> y + t < snd (im_size im)
                     then im_px im (x + l) (y + t) c else 0)\<rparr>)"

text \<open>
  \<^verbatim>\<open>image.resize((224, 224))\<close> keeps the mode and gives the requested size. Which
  pixel values the resampling filter produces is left to a parameter.
\<close>

type_synonym resampler = "image \<Rightarrow> int \<times> int \<Rightarrow> int \<Rightarrow> int \<Rightarrow> nat \<Rightarrow> 8 word"

definition Image_resize :: "resampler \<Rightarrow> image \<Rightarrow> int \<times> int \<Rightarrow> image" where
  "Image_resize rs im sz = \<lparr>im_size = sz, im_bands = im_bands im, im_px = rs im sz\<rparr>"

text \<open>
  A numpy array is its shape and its element at each index. The arithmetic of the
  notebook is 32-bit floating point; its operations are parameters, so that nothing
  proved below depends on how they round: \<open>f_of_byte\<close> converts a pixel value,
  \<open>f_lit\<close> a literal of the program.
\<close>

record 'f ndarray =
  nd_shape :: "nat list"
  nd_at :: "nat list \<Rightarrow> 'f"

record 'f float_ops =
  f_of_byte :: "8 word \<Rightarrow> 'f"
  f_lit :: "real \<Rightarrow> 'f"
  f_add :: "'f \<Rightarrow> 'f \<Rightarrow> 'f"
  f_sub :: "'f \<Rightarrow> 'f \<Rightarrow> 'f"
  f_div :: "'f \<Rightarrow> 'f \<Rightarrow> 'f"

text \<open>
  \<^verbatim>\<open>np.array(image, dtype=np.float32)\<close>: an image of one band gives a
  two-dimensional array of shape \<open>(height, width)\<close>, any other image a
  three-dimensional one of shape \<open>(height, width, bands)\<close>.
\<close>

definition np_array :: "'f float_ops \<Rightarrow> image \<Rightarrow> 'f ndarray" where
  "np_array ops im =
     (case im_size im of (w, h) \<Rightarrow>
        if im_bands im = 1
        then \<lparr>nd_shape = [nat h, nat w],
              nd_at = (\<lambda>idx. f_of_byte ops (im_px im (int (idx ! 1)) (int (idx ! 0)) 0))\<rparr>
        else \<lparr>nd_shape = [nat h, nat w, im_bands im],
              nd_at = (\<lambda>idx. f_of_byte ops (im_px im (int (idx ! 1)) (int (idx ! 0)) (idx ! 2)))\<rparr>)"

text \<open>
  \<^verbatim>\<open>np.transpose(a, axes)\<close> raises ValueError unless \<open>axes\<close> is a permutation of
  the array's dimensions; dimension \<open>k\<close> of the result is dimension \<open>axes ! k\<close> of
  the argument.
\<close>

definition axis_position :: "nat list \<Rightarrow> nat \<Rightarrow> nat" where
  "axis_position axes d = length (takeWhile (\<lambda>k. k \<noteq> d) axes)"

definition np_transpose :: "'f ndarray \<Rightarrow> nat list \<Rightarrow> error + 'f ndarray" where
  "np_transpose a axes =
     (if sort axes \<noteq> [0..<length (nd_shape a)] then Inl ValueError
      else Inr \<lparr>nd_shape = map (\<lambda>k. nd_shape a ! k) axes,
                nd_at = (\<lambda>idx. nd_at a (map (\<lambda>d. idx ! axis_position axes d) [0..<length axes]))\<rparr>)"

text \<open>\<^verbatim>\<open>a / k\<close> and \<^verbatim>\<open>a - k\<close> for a Python float \<open>k\<close>, element by element.\<close>

definition np_divide :: "'f float_ops \<Rightarrow> 'f ndarray \<Rightarrow> real \<Rightarrow> 'f ndarray" where
  "np_divide ops a k = a\<lparr>nd_at := (\<lambda>idx. f_div ops (nd_at a idx) (f_lit ops k))\<rparr>"

definition np_subtract :: "'f float_ops \<Rightarrow> 'f ndarray \<Rightarrow> real \<Rightarrow> 'f ndarray" where
  "np_subtract ops a k = a\<lparr>nd_at := (\<lambda>idx. f_sub ops (nd_at a idx) (f_lit ops k))\<rparr>"

text \<open>
  \<^verbatim>\<open>a[c]\<close> and \<^verbatim>\<open>a[c] = v\<close> for a non-negative integer \<open>c\<close>: IndexError when
  the array has no dimension or \<open>c\<close> is not below the first one. The assigned value
  has the shape of \<^verbatim>\<open>a[c]\<close> wherever the notebook assigns; any other shape is
  reported as ValueError.
\<close>

definition np_getitem :: "'f ndarray \<Rightarrow> nat \<Rightarrow> error + 'f ndarray" where
  "np_getitem a c =
     (case nd_shape a of
        [] \<Rightarrow> Inl IndexError
      | n # ns \<Rightarrow>
          if n \<le> c then Inl IndexError
          else Inr \<lparr>nd_shape = ns, nd_at = (\<lambda>idx. nd_at a (c # idx))\<rparr>)"

definition np_setitem :: "'f ndarray \<Rightarrow> nat \<Rightarrow> 'f ndarray \<Rightarrow> error + 'f ndarray" where
  "np_setitem a c v =
     (case nd_shape a of
        [] \<Rightarrow> Inl IndexError
      | n # ns \<Rightarrow>
          if n \<le> c then Inl IndexError
          else if nd_shape v \<noteq> ns then Inl ValueError
          else Inr (a\<lparr>nd_at := (\<lambda>idx. if hd idx = c then nd_at v (tl idx) else nd_at a idx)\<rparr>))"

text \<open>
  \<^verbatim>\<open>np.stack(arrays)\<close>: ValueError on an empty list and on arrays of different
  shapes; otherwise a new first dimension counts the arrays.
\<close>

definition np_stack :: "'f ndarray list \<Rightarrow> error + 'f ndarray" where
  "np_stack arrays =
     (if arrays = [] then Inl ValueError
      else if map nd_shape arrays \<noteq> replicate (length arrays) (nd_shape (hd arrays))
      then Inl ValueError
      else Inr \<lparr>nd_shape = length arrays # nd_shape (hd arrays),
                nd_at = (\<lambda>idx. nd_at (arrays ! hd idx) (tl idx))\<rparr>)"

section \<open>The image preprocessor\<close>

text \<open>One statement \<^verbatim>\<open>pix[c] = (pix[c] - mean) / std\<close>.\<close>

definition normalize_channel ::
  "'f float_ops \<Rightarrow> 'f ndarray \<Rightarrow> nat \<Rightarrow> real \<Rightarrow> real \<Rightarrow> error + 'f ndarray" where
  "normalize_channel ops pix c mean std =
     (case np_getitem pix c of
        Inl e \<Rightarrow> Inl e
      | Inr plane \<Rightarrow> np_setitem pix c (np_divide ops (np_subtract ops plane mean) std))"

text \<open>
  \<^verbatim>\<open>
  def image_file_to_tensor(file):
      image = Image.open(file)
      width, height = image.size
      ... (the crop bounds, above)
      image = image.crop((left, top, right, bottom)).resize((224, 224))
      pix = np.transpose(np.array(image, dtype=np.float32), (2, 0, 1))
      pix = pix / 255.0
      pix[0] = (pix[0] - 0.485) / 0.229
      pix[1] = (pix[1] - 0.456) / 0.224
      pix[2] = (pix[2] - 0.406) / 0.225
      return pix
  \<close>
\<close>

definition image_file_to_tensor ::
  "'f float_ops \<Rightarrow> resampler \<Rightarrow> filesystem \<Rightarrow> string \<Rightarrow> error + 'f ndarray" where
  "image_file_to_tensor ops rs fs file =
     (case Image_open fs file of
        Inl e \<Rightarrow> Inl e
      | Inr img \<Rightarrow>
     (case im_size img of (width, height) \<Rightarrow>
     (case Image_crop img (crop_box width height) of
        Inl e \<Rightarrow> Inl e
      | Inr cropped \<Rightarrow>
     (case np_transpose (np_array ops (Image_resize rs cropped (224, 224))) [2, 0, 1] of
        Inl e \<Rightarrow> Inl e
      | Inr pix \<Rightarrow>
     (case normalize_channel ops (np_divide ops pix 255) 0 0.485 0.229 of
        Inl e \<Rightarrow> Inl e
      | Inr pix \<Rightarrow>
     (case normalize_channel ops pix 1 0.456 0.224 of
        Inl e \<Rightarrow> Inl e
      | Inr pix \<Rightarrow> normalize_channel ops pix 2 0.406 0.225))))))"

section \<open>The training driver\<close>

text \<open>
  \<^verbatim>\<open>
  label_to_id_map = {"dog": 0, "cat": 1, "elephant": 2, "cow": 3}
  num_samples_per_class = 20
  num_epochs = 5
  \<close>
\<close>

definition label_to_id_map :: "(string \<times> int) list" where
  "label_to_id_map = [(''dog'', 0), (''cat'', 1), (''elephant'', 2), (''cow'', 3)]"

definition num_samples_per_class :: nat where
  "num_samples_per_class = 20"

definition num_epochs :: nat where
  "num_epochs = 5"

text \<open>
  The external training runtime is opaque: its state \<open>'s\<close> (checkpoint, module and
  optimizer together) and its four operations are parameters. Each operation may
  fail. \<open>module_call\<close> is \<^verbatim>\<open>model([batch, labels])[0]\<close>: it takes the stacked batch
  and the labels, a one-dimensional int32 array kept as the list of its elements, and
  returns the loss of the step.
\<close>

record ('s, 'f) runtime =
  module_train :: "'s \<Rightarrow> error + 's"
  module_call :: "'s \<Rightarrow> 'f ndarray \<Rightarrow> 32 word list \<Rightarrow> error + 'f \<times> 's"
  optimizer_step :: "'s \<Rightarrow> error + 's"
  lazy_reset_grad :: "'s \<Rightarrow> error + 's"

text \<open>
  The innermost loop:
  \<^verbatim>\<open>
  for animal in animals:
      batch.append(image_file_to_tensor(animals[animal][index]))
      labels.append(label_to_id_map[animal])
  \<close>
  The two lists grow at their ends, so the element of the first class comes first.
\<close>

fun build_batch ::
  "'f float_ops \<Rightarrow> resampler \<Rightarrow> filesystem \<Rightarrow> (string \<times> string list) list \<Rightarrow> nat \<Rightarrow>
     error + 'f ndarray list \<times> int list" where
  "build_batch ops rs fs [] index = Inr ([], [])"
| "build_batch ops rs fs ((animal, files) # rest) index =
     (case list_get files index of
        Inl e \<Rightarrow> Inl e
      | Inr file \<Rightarrow>
     (case image_file_to_tensor ops rs fs file of
        Inl e \<Rightarrow> Inl e
      | Inr tensor \<Rightarrow>
     (case dict_get label_to_id_map animal of
        Inl e \<Rightarrow> Inl e
      | Inr label \<Rightarrow>
     (case build_batch ops rs fs rest index of
        Inl e \<Rightarrow> Inl e
      | Inr (batch, labels) \<Rightarrow> Inr (tensor # batch, label # labels)))))"

text \<open>
  The body of \<^verbatim>\<open>for index in range(num_samples_per_class)\<close>, up to the update of
  the loss accumulator: build the batch, stack it, convert the labels to int32, call
  the module, step the optimizer, reset the gradients. The result is the loss of the
  step and the new state of the runtime.
\<close>

definition training_step ::
  "('s, 'f) runtime \<Rightarrow> 'f float_ops \<Rightarrow> resampler \<Rightarrow> filesystem \<Rightarrow>
     (string \<times> string list) list \<Rightarrow> 's \<Rightarrow> nat \<Rightarrow> error + 'f \<times> 's" where
  "training_step rt ops rs fs animals s index =
     (case build_batch ops rs fs animals index of
        Inl e \<Rightarrow> Inl e
      | Inr (batch, labels) \<Rightarrow>
     (case np_stack batch of
        Inl e \<Rightarrow> Inl e
      | Inr stacked \<Rightarrow>
     (case module_call rt s stacked (map word_of_int labels) of
        Inl e \<Rightarrow> Inl e
      | Inr (step_loss, s1) \<Rightarrow>
     (case optimizer_step rt s1 of
        Inl e \<Rightarrow> Inl e
      | Inr s2 \<Rightarrow>
     (case lazy_reset_grad rt s2 of
        Inl e \<Rightarrow> Inl e
      | Inr s3 \<Rightarrow> Inr (step_loss, s3))))))"

text \<open>
  The loop over the sample indices, with the accumulator \<^verbatim>\<open>loss\<close> and the state
  of the runtime. A failure carries the exception and the value of \<^verbatim>\<open>index\<close> at
  which it was raised.
\<close>

fun sample_loop ::
  "('s, 'f) runtime \<Rightarrow> 'f float_ops \<Rightarrow> resampler \<Rightarrow> filesystem \<Rightarrow>
     (string \<times> string list) list \<Rightarrow> nat list \<Rightarrow> 'f \<Rightarrow> 's \<Rightarrow> error \<times> nat + 'f \<times> 's" where
  "sample_loop rt ops rs fs animals [] loss s = Inr (loss, s)"
| "sample_loop rt ops rs fs animals (index # rest) loss s =
     (case training_step rt ops rs fs animals s index of
        Inl e \<Rightarrow> Inl (e, index)
      | Inr (step_loss, s') \<Rightarrow>
          sample_loop rt ops rs fs animals rest (f_add ops loss step_loss) s')"

text \<open>
  One epoch, up to its \<^verbatim>\<open>print\<close>: \<^verbatim>\<open>model.train()\<close>, \<^verbatim>\<open>loss = 0\<close>, the loop over
  \<^verbatim>\<open>range(num_samples_per_class)\<close>. The sample index of a failure is \<open>None\<close> when
  \<^verbatim>\<open>model.train()\<close> itself fails.
\<close>

definition run_epoch ::
  "('s, 'f) runtime \<Rightarrow> 'f float_ops \<Rightarrow> resampler \<Rightarrow> filesystem \<Rightarrow>
     (string \<times> string list) list \<Rightarrow> 's \<Rightarrow> error \<times> nat option + 'f \<times> 's" where
  "run_epoch rt ops rs fs animals s =
     (case module_train rt s of
        Inl e \<Rightarrow> Inl (e, None)
      | Inr s1 \<Rightarrow>
     (case sample_loop rt ops rs fs animals [0..<num_samples_per_class] (f_lit ops 0) s1 of
        Inl (e, index) \<Rightarrow> Inl (e, Some index)
      | Inr r \<Rightarrow> Inr r))"

text \<open>
  The loop over the epochs. Each completed epoch prints one line,
  \<^verbatim>\<open>print(f"Epoch {epoch+1} Loss {loss/num_samples_per_class}")\<close>, kept as the pair
  of the two values printed. The result is the lines printed, and, when an exception
  ended the run, the exception with the epoch and the sample index it was raised at.
\<close>

fun epoch_loop ::
  "('s, 'f) runtime \<Rightarrow> 'f float_ops \<Rightarrow> resampler \<Rightarrow> filesystem \<Rightarrow>
     (string \<times> string list) list \<Rightarrow> nat list \<Rightarrow> 's \<Rightarrow>
     (nat \<times> 'f) list \<times> (error \<times> nat \<times> nat option) option" where
  "epoch_loop rt ops rs fs animals [] s = ([], None)"
| "epoch_loop rt ops rs fs animals (epoch # rest) s =
     (case run_epoch rt ops rs fs animals s of
        Inl (e, index) \<Rightarrow> ([], Some (e, epoch, index))
      | Inr (loss, s') \<Rightarrow>
     (case epoch_loop rt ops rs fs animals rest s' of
        (printed, failure) \<Rightarrow>
          ((epoch + 1, f_div ops loss (f_lit ops (real num_samples_per_class))) # printed,
           failure)))"

definition training_loop ::
  "('s, 'f) runtime \<Rightarrow> 'f float_ops \<Rightarrow> resampler \<Rightarrow> filesystem \<Rightarrow>
     (string \<times> string list) list \<Rightarrow> 's \<Rightarrow>
     (nat \<times> 'f) list \<times> (error \<times> nat \<times> nat option) option" where
  "training_loop rt ops rs fs animals s = epoch_loop rt ops rs fs animals [0..<num_epochs] s"

section \<open>What the claims speak of\<close>

text \<open>
  The losses of the steps of one epoch, in order, for a runtime that starts the epoch
  in state \<open>s\<close>: the values \<open>module_call\<close> returns, replayed step by step without an
  accumulator. The list stops at the first step that fails.
\<close>

fun step_losses ::
  "('s, 'f) runtime \<Rightarrow> 'f float_ops \<Rightarrow> resampler \<Rightarrow> filesystem \<Rightarrow>
     (string \<times> string list) list \<Rightarrow> nat list \<Rightarrow> 's \<Rightarrow> 'f list" where
  "step_losses rt ops rs fs animals [] s = []"
| "step_losses rt ops rs fs animals (index # rest) s =
     (case training_step rt ops rs fs animals s index of
        Inl e \<Rightarrow> []
      | Inr (step_loss, s') \<Rightarrow> step_loss # step_losses rt ops rs fs animals rest s')"

definition epoch_losses ::
  "('s, 'f) runtime \<Rightarrow> 'f float_ops \<Rightarrow> resampler \<Rightarrow> filesystem \<Rightarrow>
     (string \<times> string list) list \<Rightarrow> 's \<Rightarrow> 'f list" where
  "epoch_losses rt ops rs fs animals s =
     (case module_train rt s of
        Inl e \<Rightarrow> []
      | Inr s1 \<Rightarrow> step_losses rt ops rs fs animals [0..<num_samples_per_class] s1)"

text \<open>
  The state of the runtime when epoch \<open>k\<close> starts (epochs counted from 0): each
  completed epoch hands its final state to the next one.
\<close>

definition next_epoch_state ::
  "('s, 'f) runtime \<Rightarrow> 'f float_ops \<Rightarrow> resampler \<Rightarrow> filesystem \<Rightarrow>
     (string \<times> string list) list \<Rightarrow> 's \<Rightarrow> 's" where
  "next_epoch_state rt ops rs fs animals s =
     (case run_epoch rt ops rs fs animals s of Inl e \<Rightarrow> s | Inr (loss, s') \<Rightarrow> s')"

definition epoch_start_state ::
  "('s, 'f) runtime \<Rightarrow> 'f float_ops \<Rightarrow> resampler \<Rightarrow> filesystem \<Rightarrow>
     (string \<times> string list) list \<Rightarrow> 's \<Rightarrow> nat \<Rightarrow> 's" where
  "epoch_start_state rt ops rs fs animals s0 k = (next_epoch_state rt ops rs fs animals ^^ k) s0"

text \<open>
  The value the spec gives for a pixel value \<open>v\<close> of channel \<open>c\<close>:
  \<open>(v/255 - mean) / std\<close> with the constants of channels 0, 1 and 2; a further
  channel is only divided by 255.
\<close>

definition normalized :: "'f float_ops \<Rightarrow> nat \<Rightarrow> 8 word \<Rightarrow> 'f" where
  "normalized ops c v =
     (let scaled = f_div ops (f_of_byte ops v) (f_lit ops 255) in
      if c < 3
      then f_div ops (f_sub ops scaled (f_lit ops ([0.485, 0.456, 0.406] ! c)))
             (f_lit ops ([0.229, 0.224, 0.225] ! c))
      else scaled)"

text \<open>
  A file that decodes to an image of three bands and positive size, and a dataset in
  which every class has a label, at least \<open>m\<close> files, and only such files.
\<close>

definition rgb_file :: "filesystem \<Rightarrow> string \<Rightarrow> bool" where
  "rgb_file fs file =
     (case decode fs file of
        None \<Rightarrow> False
      | Some im \<Rightarrow> 0 < fst (im_size im) \<and> 0 < snd (im_size im) \<and> im_bands im = 3)"

definition dataset_ok :: "filesystem \<Rightarrow> (string \<times> string list) list \<Rightarrow> nat \<Rightarrow> bool" where
  "dataset_ok fs animals m =
     (animals \<noteq> [] \<and>
      list_all (\<lambda>(animal, files).
         m \<le> length files \<and> list_all (rgb_file fs) files \<and>
         map_of label_to_id_map animal \<noteq> None) animals)"

section \<open>Concrete inputs\<close>

text \<open>
  Exact arithmetic on the reals as one instance of the arithmetic, a nearest-neighbour
  resampling filter, an image whose pixels all have the same value, a file system
  that holds \<open>count animal\<close> image files for each class directory (no directory
  for \<open>None\<close>) and decodes every file to the same image, and a runtime whose
  state counts the steps taken and whose loss is that count.
\<close>

definition real_ops :: "real float_ops" where
  "real_ops = \<lparr>f_of_byte = (\<lambda>b. real (unat b)), f_lit = (\<lambda>k. k),
                f_add = (+), f_sub = (-), f_div = (/)\<rparr>"

definition nearest :: resampler where
  "nearest im sz x y c =
     im_px im (x * fst (im_size im) div fst sz) (y * snd (im_size im) div snd sz) c"

definition uniform_image :: "int \<Rightarrow> int \<Rightarrow> nat \<Rightarrow> 8 word \<Rightarrow> image" where
  "uniform_image w h bands v = \<lparr>im_size = (w, h), im_bands = bands, im_px = (\<lambda>x y c. v)\<rparr>"

definition dataset_fs :: "(string \<Rightarrow> nat option) \<Rightarrow> image \<Rightarrow> filesystem" where
  "dataset_fs count img =
     \<lparr>listdir = (\<lambda>dir.
         if take 12 dir = ''data/images/''
         then map_option (\<lambda>n. map (\<lambda>i. ''img'' @ replicate i (CHR ''0'')) [0..<n])
                (count (drop 12 dir))
         else None),
      decode = (\<lambda>file. Some img)\<rparr>"

definition counting_runtime :: "(nat, real) runtime" where
  "counting_runtime =
     \<lparr>module_train = (\<lambda>s. Inr s),
      module_call = (\<lambda>s batch labels. Inr (real s, Suc s)),
      optimizer_step = (\<lambda>s. Inr s),
      lazy_reset_grad = (\<lambda>s. Inr s)\<rparr>"

section \<open>The inference verifier\<close>













section \<open>PIL's resize on an image with an alpha channel\<close>

text \<open>
  On an image of mode RGBA, \<^verbatim>\<open>resize\<close> with any filter but NEAREST (the default is
  BICUBIC) first converts to premultiplied alpha: each colour value \<open>v\<close> becomes
  \<open>v * alpha / 255\<close>, rounded. It resamples that image, and converts back: a pixel
  whose alpha is 0 or 255 keeps its colour values, any other gets \<open>255 * v / alpha\<close>,
  at most 255. \<open>resize_RGBA flt\<close> is this resize around the resampling filter
  \<open>flt\<close>. A file that decodes to white pixels that are fully transparent is
  \<open>transparent_white\<close>.
\<close>

definition premultiply :: "image \<Rightarrow> image" where
  "premultiply im =
     im\<lparr>im_px := (\<lambda>x y c.
        if c = 3 then im_px im x y 3
        else (let t = unat (im_px im x y c) * unat (im_px im x y 3) + 128
              in of_nat ((t div 256 + t) div 256)))\<rparr>"

definition resize_RGBA :: "resampler \<Rightarrow> resampler" where
  "resize_RGBA flt im sz x y c =
     (let alpha = flt (premultiply im) sz x y 3;
          v = flt (premultiply im) sz x y c
      in if c = 3 then alpha
         else if alpha = 255 \<or> alpha = 0 then v
         else of_nat (min 255 (255 * unat v div unat alpha)))"

definition transparent_white :: image where
  "transparent_white =
     \<lparr>im_size = (640, 480), im_bands = 4, im_px = (\<lambda>x y c. if c = 3 then 0 else 255)\<rparr>"

section \<open>Properties of the crop bounds\<close>

text \<open>
  C1 (as amended). The left margin removed from a landscape image is
  \<open>(width - height) div 2\<close>, rounded down, but the right margin
  \<open>width - right\<close> is the same difference rounded up, \<open>(width - height + 1) div 2\<close>:
  the two agree exactly when the difference is even. The same holds for the top
  and bottom margins of an image with \<open>height \<ge> width\<close>.
\<close>

theorem crop_box_margins:
  "(width > height \<longrightarrow>
      crop_box width height =
        ((width - height) div 2, 0, width - (width - height + 1) div 2, height))
   \<and> (\<not> width > height \<longrightarrow>
      crop_box width height =
        (0, (height - width) div 2, width, height - (height - width + 1) div 2))"
  unfolding crop_box_def by auto

theorem crop_box_margins_witness:
  "crop_box 7 4 = (1, 0, 7 - 2, 4) \<and> crop_box 4 7 = (0, 1, 4, 7 - 2)"
  using crop_box_margins [of 4 7] crop_box_margins [of 7 4] by simp

text \<open>
  C1 (as stated) fails on a 3 x 2 image: the bounds are \<open>(0, 0, 2, 2)\<close>, so no
  column is removed on the left and one column is removed on the right, which is
  not \<open>(3 - 2) div 2 = 0\<close>.
\<close>

theorem crop_box_right_margin_counterexample:
  "crop_box 3 2 = (0, 0, 2, 2) \<and> (3::int) - 2 \<noteq> (3 - 2) div 2"
  unfolding crop_box_def by simp

text \<open>
  C3. On a square image the crop is the whole image: left and top are 0, right is
  the width and bottom is the height.
\<close>

theorem crop_box_square:
  "width = height \<Longrightarrow> crop_box width height = (0, 0, width, height)"
  unfolding crop_box_def by simp

theorem crop_box_square_witness:
  "crop_box 224 224 = (0, 0, 224, 224)"
  using crop_box_square [of 224 224] by simp

text \<open>
  C10. For positive width and height the bounds stay inside the pixel grid:
  \<open>0 \<le> left \<le> right \<le> width\<close> and \<open>0 \<le> top \<le> bottom \<le> height\<close>.
\<close>

theorem crop_box_in_image:
  assumes "0 < width" and "0 < height"
    and "crop_box width height = (l, t, r, b)"
  shows "0 \<le> l \<and> l \<le> r \<and> r \<le> width \<and> 0 \<le> t \<and> t \<le> b \<and> b \<le> height"
  using assms unfolding crop_box_def by (auto split: if_splits)

theorem crop_box_in_image_witness:
  "crop_box 5 2 = (1, 0, 3, 2) \<and>
   (0::int) \<le> 1 \<and> (1::int) \<le> 3 \<and> (3::int) \<le> 5 \<and> (0::int) \<le> 0 \<and> (0::int) \<le> 2 \<and> (2::int) \<le> 2"
proof -
  have b: "crop_box 5 2 = (1, 0, 3, 2)" unfolding crop_box_def by simp
  show ?thesis using b crop_box_in_image [of 5 2 1 0 3 2] by simp
qed

section \<open>Properties of the preprocessor\<close>

lemma sort_201: "sort [2, 0, Suc 0] = [0..<3]"
  by (simp add: upt_rec numeral_3_eq_3)

lemma crop_ok:
  assumes "0 < w" "0 < h" "im_size im = (w, h)"
  shows "\<exists>cr. Image_crop im (crop_box w h) = Inr cr \<and> im_size cr = (min w h, min w h)
     \<and> im_bands cr = im_bands im"
  using assms unfolding Image_crop_def crop_box_def
  by (auto simp: min_def)

lemma crop_uniform:
  assumes "0 < w" "0 < h" "im_size im = (w, h)"
    and "\<forall>x y. 0 \<le> x \<and> x < w \<and> 0 \<le> y \<and> y < h \<longrightarrow> im_px im x y c = v"
    and "Image_crop im (crop_box w h) = Inr cropped"
  shows "\<forall>x y. 0 \<le> x \<and> x < fst (im_size cropped) \<and> 0 \<le> y \<and> y < snd (im_size cropped)
           \<longrightarrow> im_px cropped x y c = v"
  using assms unfolding Image_crop_def crop_box_def
  by (auto split: if_splits)

text \<open>
  C2. For positive width and height the crop bounds span a square whose side is
  \<open>min width height\<close>: \<open>right - left\<close> and \<open>bottom - top\<close> both equal it, the
  crop succeeds, and the cropped image has that width and that height.
\<close>

theorem crop_is_square:
  assumes "0 < width" and "0 < height" and "im_size im = (width, height)"
    and "crop_box width height = (l, t, r, b)"
  shows "r - l = min width height \<and> b - t = min width height \<and>
         (\<exists>cropped. Image_crop im (l, t, r, b) = Inr cropped \<and>
            im_size cropped = (min width height, min width height))"
  using assms unfolding Image_crop_def crop_box_def
  by (auto split: if_splits)

theorem crop_is_square_witness:
  "crop_box 5 2 = (1, 0, 3, 2) \<and> (3::int) - 1 = min 5 2 \<and> (2::int) - 0 = min 5 2 \<and>
   (\<exists>cropped. Image_crop (uniform_image 5 2 3 0) (1, 0, 3, 2) = Inr cropped \<and>
      im_size cropped = (min 5 2, min 5 2))"
proof -
  have b: "crop_box 5 2 = (1, 0, 3, 2)" unfolding crop_box_def by simp
  have s: "im_size (uniform_image 5 2 3 0) = (5, 2)" by (simp add: uniform_image_def)
  show ?thesis using b crop_is_square [OF _ _ s b] by simp
qed

text \<open>
  The result of the preprocessor on a file that decodes to an image of at least three
  bands: it succeeds, the tensor has one plane per band, and every element is the
  resampled pixel, scaled and normalised with the constants of its channel.
\<close>

lemma tensor_of_image:
  assumes "decode fs file = Some im" "im_size im = (w, h)" "0 < w" "0 < h" "3 \<le> im_bands im"
  shows "\<exists>t. image_file_to_tensor ops rs fs file = Inr t \<and> nd_shape t = [im_bands im, 224, 224] \<and>
     (\<forall>c y x. nd_at t [c, y, x] =
        normalized ops c (rs (projr (Image_crop im (crop_box w h))) (224, 224) (int x) (int y) c))"
proof -
  obtain cr where cr: "Image_crop im (crop_box w h) = Inr cr" "im_bands cr = im_bands im"
    using crop_ok [OF assms(3,4,2)] by auto
  have b: "im_bands im \<noteq> 1" "\<not> im_bands im \<le> 0" "\<not> im_bands im \<le> Suc 0" "\<not> im_bands im \<le> 2"
    using assms(5) by auto
  show ?thesis
    using assms(1,2) cr b
    by (simp add: image_file_to_tensor_def Image_open_def Image_resize_def np_array_def
        np_transpose_def sort_201 normalize_channel_def np_getitem_def np_setitem_def
        np_divide_def np_subtract_def axis_position_def normalized_def upt_rec numeral_2_eq_2 numeral_3_eq_3)
qed

text \<open>
  On an image of one band \<^verbatim>\<open>np.array\<close> gives two dimensions, and the transposition
  with three axes raises ValueError.
\<close>

lemma tensor_of_gray:
  assumes "decode fs file = Some im" "im_size im = (w, h)" "0 < w" "0 < h" "im_bands im = 1"
  shows "image_file_to_tensor ops rs fs file = Inl ValueError"
proof -
  obtain cr where cr: "Image_crop im (crop_box w h) = Inr cr" "im_bands cr = im_bands im"
    using crop_ok [OF assms(3,4,2)] by auto
  show ?thesis
    using assms(1,2,5) cr
    by (simp add: image_file_to_tensor_def Image_open_def Image_resize_def np_array_def
        np_transpose_def)
qed

text \<open>
  C4. The notebook announces a tensor of shape \<open>[3 x 224 x 224]\<close>. On a file that
  decodes to a four-band image (RGBA, CMYK) of 640 x 480 pixels the preprocessor
  succeeds and returns a tensor of shape \<open>(4, 224, 224)\<close>: nothing converts the
  image to three bands, and the fourth plane is only divided by 255.
\<close>

theorem rgba_tensor_shape:
  "map_sum id nd_shape
     (image_file_to_tensor real_ops nearest (dataset_fs (\<lambda>a. Some 1) (uniform_image 640 480 4 0))
        ''inference_artifacts/test1.jpg'') = Inr [4, 224, 224]"
  by (simp add: image_file_to_tensor_def Image_open_def dataset_fs_def uniform_image_def
      crop_box_def Image_crop_def Image_resize_def np_array_def np_transpose_def sort_201
      normalize_channel_def np_getitem_def np_setitem_def np_divide_def np_subtract_def)

text \<open>
  Where the normalisation formula does hold: let a file decode to an image of at least
  three bands whose channel \<open>c\<close> (0, 1 or 2) has the value \<open>v\<close> at every pixel, and
  let the resampling filter map the uniform channel of the cropped image to the same
  value. Then the preprocessor succeeds and every element of plane \<open>c\<close> of the tensor
  is \<open>(v / 255 - mean) / std\<close>, with mean 0.485, 0.456, 0.406 and std 0.229, 0.224,
  0.225 for the channels 0, 1, 2, computed with the operations of the program's
  arithmetic in this order.
\<close>

theorem normalization_uniform_channel:
  assumes "decode fs file = Some im" and "im_size im = (w, h)" and "0 < w" and "0 < h"
    and "3 \<le> im_bands im" and "c < 3"
    and "\<forall>x y. 0 \<le> x \<and> x < w \<and> 0 \<le> y \<and> y < h \<longrightarrow> im_px im x y c = v"
    and "Image_crop im (crop_box w h) = Inr cropped"
    and "(\<forall>x y. 0 \<le> x \<and> x < fst (im_size cropped) \<and> 0 \<le> y \<and> y < snd (im_size cropped)
            \<longrightarrow> im_px cropped x y c = v)
         \<longrightarrow> (\<forall>x y. 0 \<le> x \<and> x < 224 \<and> 0 \<le> y \<and> y < 224 \<longrightarrow> rs cropped (224, 224) x y c = v)"
    and "y < 224" and "x < 224"
  shows "\<exists>t. image_file_to_tensor ops rs fs file = Inr t \<and>
           nd_at t [c, y, x] =
             f_div ops
               (f_sub ops (f_div ops (f_of_byte ops v) (f_lit ops 255))
                  (f_lit ops ([0.485, 0.456, 0.406] ! c)))
               (f_lit ops ([0.229, 0.224, 0.225] ! c))"
proof -
  from tensor_of_image [OF assms(1-5), of ops rs]
  obtain t where t: "image_file_to_tensor ops rs fs file = Inr t"
    and v: "nd_at t [c, y, x] = normalized ops c (rs (projr (Image_crop im (crop_box w h))) (224, 224) (int x) (int y) c)"
    by blast
  have "rs cropped (224, 224) (int x) (int y) c = v"
    using crop_uniform [OF assms(3,4,2,7,8)] assms(9-11) by simp
  then show ?thesis
    using t v assms(6,8) by (simp add: normalized_def)
qed

theorem normalization_uniform_channel_witness:
  "\<exists>t. image_file_to_tensor real_ops nearest (dataset_fs (\<lambda>a. Some 1) (uniform_image 3 2 3 255)) ''a.jpg'' = Inr t \<and>
        nd_at t [0, 5, 7] = (255 / 255 - 0.485) / 0.229"
proof -
  let ?im = "uniform_image 3 2 3 255"
  have d: "decode (dataset_fs (\<lambda>a. Some 1) ?im) ''a.jpg'' = Some ?im" by (simp add: dataset_fs_def)
  have sz: "im_size ?im = (3, 2)" by (simp add: uniform_image_def)
  have b: "3 \<le> im_bands ?im" by (simp add: uniform_image_def)
  have u: "\<forall>x y. 0 \<le> x \<and> x < 3 \<and> 0 \<le> y \<and> y < 2 \<longrightarrow> im_px ?im x y 0 = 255"
    by (simp add: uniform_image_def)
  obtain cr where c: "Image_crop ?im (crop_box 3 2) = Inr cr" and szc: "im_size cr = (2, 2)"
    using crop_ok [OF _ _ sz] by auto
  have r: "(\<forall>x y. 0 \<le> x \<and> x < fst (im_size cr) \<and> 0 \<le> y \<and> y < snd (im_size cr)
            \<longrightarrow> im_px cr x y 0 = 255)
         \<longrightarrow> (\<forall>x y. 0 \<le> x \<and> x < 224 \<and> 0 \<le> y \<and> y < 224 \<longrightarrow> nearest cr (224, 224) x y 0 = 255)"
  proof (intro impI allI)
    fix x y :: int
    assume h: "\<forall>x y. 0 \<le> x \<and> x < fst (im_size cr) \<and> 0 \<le> y \<and> y < snd (im_size cr)
            \<longrightarrow> im_px cr x y 0 = 255"
      and xy: "0 \<le> x \<and> x < 224 \<and> 0 \<le> y \<and> y < 224"
    have "0 \<le> x * 2 div 224 \<and> x * 2 div 224 < 2 \<and> 0 \<le> y * 2 div 224 \<and> y * 2 div 224 < 2"
      using xy by auto
    then show "nearest cr (224, 224) x y 0 = 255"
      using h by (simp add: nearest_def szc)
  qed
  show ?thesis
    using normalization_uniform_channel
      [where rs = nearest and ops = real_ops and c = 0 and v = 255 and y = 5 and x = 7,
        OF d sz _ _ b _ u c r]
    by (simp add: real_ops_def)
qed

text \<open>
  C5. The red channel of \<open>transparent_white\<close> is 255 at every pixel, so the claim
  gives \<open>(255/255 - 0.485) / 0.229\<close> for every element of plane 0. The preprocessor
  does not convert the image to RGB; the resize premultiplies the colours by the alpha
  value 0, and the element of plane 0 at row 5, column 7 is \<open>(0/255 - 0.485) / 0.229\<close>.
  The colour bands of the premultiplied image are 0 at every pixel, so the filter that
  resamples them has no influence on this value; \<open>nearest\<close> stands for it.
\<close>

theorem rgba_transparent_channel_value:
  "map_sum id (\<lambda>t. nd_at t [0, 5, 7])
     (image_file_to_tensor real_ops (resize_RGBA nearest)
        (dataset_fs (\<lambda>a. Some 1) transparent_white) ''data/images/dog/img'')
     = Inr ((0 / 255 - 0.485) / 0.229) \<and>
   (0 / 255 - 0.485) / 0.229 \<noteq> ((255 / 255 - 0.485) / 0.229 :: real)"
  by (simp add: image_file_to_tensor_def Image_open_def dataset_fs_def transparent_white_def
      crop_box_def Image_crop_def Image_resize_def np_array_def np_transpose_def sort_201
      normalize_channel_def np_getitem_def np_setitem_def np_divide_def np_subtract_def
      axis_position_def resize_RGBA_def nearest_def premultiply_def real_ops_def upt_rec)

section \<open>Properties of the training driver\<close>

text \<open>
  C9. Whenever the batch of a training step is built from the loaded dataset, the
  labels are \<open>[0, 1, 2, 3]\<close>, also as int32 values, and the batch holds four
  tensors: those of the files at the step's index in the lists of dog, cat, elephant
  and cow, in this order.
\<close>

theorem batch_order:
  assumes "build_batch ops rs fs (load_dataset_files fs) index = Inr (batch, labels)"
  shows "labels = [0, 1, 2, 3] \<and> map word_of_int labels = [0, 1, 2, 3 :: 32 word] \<and>
    (\<exists>f0 f1 f2 f3 t0 t1 t2 t3.
       list_get (glob_star fs ''data/images/dog'') index = Inr f0 \<and>
       image_file_to_tensor ops rs fs f0 = Inr t0 \<and>
       list_get (glob_star fs ''data/images/cat'') index = Inr f1 \<and>
       image_file_to_tensor ops rs fs f1 = Inr t1 \<and>
       list_get (glob_star fs ''data/images/elephant'') index = Inr f2 \<and>
       image_file_to_tensor ops rs fs f2 = Inr t2 \<and>
       list_get (glob_star fs ''data/images/cow'') index = Inr f3 \<and>
       image_file_to_tensor ops rs fs f3 = Inr t3 \<and>
       batch = [t0, t1, t2, t3])"
  using assms
  by (auto simp: load_dataset_files_def label_to_id_map_def dict_get_def split: sum.splits)

text \<open>
  The loop with an accumulator against the list of the step losses: when the loop
  over the indices completes, there was one loss per index, and the accumulator is the
  fold of the addition over them from the left.
\<close>

lemma sample_loop_sum:
  assumes "sample_loop rt ops rs fs animals idxs loss s = Inr (loss', s')"
  shows "length (step_losses rt ops rs fs animals idxs s) = length idxs \<and>
         loss' = foldl (f_add ops) loss (step_losses rt ops rs fs animals idxs s)"
  using assms
proof (induction idxs arbitrary: loss s)
  case Nil
  then show ?case by simp
next
  case (Cons index rest)
  then show ?case by (auto split: sum.splits)
qed

lemma run_epoch_mean:
  assumes "run_epoch rt ops rs fs animals s = Inr (loss, s')"
  shows "length (epoch_losses rt ops rs fs animals s) = num_samples_per_class \<and>
         loss = foldl (f_add ops) (f_lit ops 0) (epoch_losses rt ops rs fs animals s)"
  using assms sample_loop_sum [of rt ops rs fs animals "[0..<num_samples_per_class]"]
  unfolding run_epoch_def epoch_losses_def
  by (auto split: sum.splits)

lemma epoch_loop_reports:
  assumes "epoch_loop rt ops rs fs animals es s = (printed, failure)"
  shows "length printed \<le> length es \<and>
     (\<forall>k<length printed.
        length (epoch_losses rt ops rs fs animals (epoch_start_state rt ops rs fs animals s k))
          = num_samples_per_class \<and>
        printed ! k =
          (es ! k + 1,
           f_div ops
             (foldl (f_add ops) (f_lit ops 0)
                (epoch_losses rt ops rs fs animals (epoch_start_state rt ops rs fs animals s k)))
             (f_lit ops (real num_samples_per_class)))) \<and>
     (failure = None \<longrightarrow> length printed = length es) \<and>
     (\<forall>e epoch index. failure = Some (e, epoch, index) \<longrightarrow>
        length printed < length es \<and> epoch = es ! length printed)"
  using assms
proof (induction es arbitrary: s printed failure)
  case Nil
  then show ?case by simp
next
  case (Cons epoch rest)
  show ?case
  proof (cases "run_epoch rt ops rs fs animals s")
    case (Inl a)
    then show ?thesis using Cons.prems by (auto split: prod.splits)
  next
    case (Inr b)
    obtain loss s' where b: "b = (loss, s')" by (cases b)
    obtain printed' failure' where rec: "epoch_loop rt ops rs fs animals rest s' = (printed', failure')"
      by (cases "epoch_loop rt ops rs fs animals rest s'")
    have p: "printed = (epoch + 1, f_div ops loss (f_lit ops (real num_samples_per_class))) # printed'"
      and f: "failure = failure'"
      using Cons.prems Inr b rec by auto
    have nxt: "epoch_start_state rt ops rs fs animals s (Suc k) = epoch_start_state rt ops rs fs animals s' k" for k
      using Inr b
      by (simp add: epoch_start_state_def next_epoch_state_def funpow_swap1)
    have zero: "epoch_start_state rt ops rs fs animals s 0 = s"
      by (simp add: epoch_start_state_def)
    note ih = Cons.IH [OF rec]
    note m = run_epoch_mean [OF Inr [unfolded b]]
    show ?thesis
      unfolding p f using ih m
      by (auto simp: nth_Cons zero nxt split: nat.splits)
  qed
qed

text \<open>
  C7. In every run of the training loop, line \<open>k\<close> of the output (counted from 0)
  reports epoch \<open>k + 1\<close>; that epoch took \<open>num_samples_per_class\<close> steps, and the
  value reported is the sum of their losses, added from the left to the literal 0 the
  accumulator is reset to, divided by \<open>num_samples_per_class\<close>. A run that ends
  without an exception prints \<open>num_epochs\<close> lines; a run that an exception ends in
  epoch \<open>e\<close> has printed the \<open>e\<close> lines of the epochs before it.
\<close>

theorem one_mean_loss_per_epoch:
  assumes "training_loop rt ops rs fs animals s0 = (printed, failure)"
  shows "(\<forall>k<length printed.
        length (epoch_losses rt ops rs fs animals (epoch_start_state rt ops rs fs animals s0 k))
          = num_samples_per_class \<and>
        printed ! k =
          (k + 1,
           f_div ops
             (foldl (f_add ops) (f_lit ops 0)
                (epoch_losses rt ops rs fs animals (epoch_start_state rt ops rs fs animals s0 k)))
             (f_lit ops (real num_samples_per_class)))) \<and>
     (failure = None \<longrightarrow> length printed = num_epochs) \<and>
     (\<forall>e epoch index. failure = Some (e, epoch, index) \<longrightarrow> length printed = epoch \<and> epoch < num_epochs)"
  using epoch_loop_reports [OF assms [unfolded training_loop_def]]
  by auto

text \<open>
  A dataset in which every class has enough files of three bands: batches of equal
  shapes are built for every index below \<open>m\<close>, and the index \<open>m\<close> itself is out of
  range for a class of exactly \<open>m\<close> files.
\<close>

lemma map_const_replicate:
  "(\<forall>x \<in> set xs. f x = c) \<Longrightarrow> map f xs = replicate (length xs) c"
  by (induction xs) auto

lemma build_batch_ok:
  assumes "list_all (\<lambda>(animal, files).
             Suc index \<le> length files \<and> list_all (rgb_file fs) files \<and>
             map_of label_to_id_map animal \<noteq> None) animals"
  shows "\<exists>batch labels. build_batch ops rs fs animals index = Inr (batch, labels) \<and>
           length batch = length animals \<and>
           (\<forall>t \<in> set batch. nd_shape t = [3, 224, 224])"
  using assms
proof (induction animals)
  case Nil
  then show ?case by simp
next
  case (Cons p rest)
  obtain animal files where p: "p = (animal, files)" by (cases p)
  have i: "index < length files" and f: "rgb_file fs (files ! index)"
    and l: "map_of label_to_id_map animal \<noteq> None"
    using Cons.prems p by (auto simp: list_all_length)
  obtain im where im: "decode fs (files ! index) = Some im" "0 < fst (im_size im)"
      "0 < snd (im_size im)" "im_bands im = 3"
    using f by (auto simp: rgb_file_def split: option.splits)
  have "3 \<le> im_bands im" using im(4) by simp
  from tensor_of_image [OF im(1) prod.collapse [symmetric] im(2,3) this, of ops rs]
  obtain t where t: "image_file_to_tensor ops rs fs (files ! index) = Inr t"
    "nd_shape t = [3, 224, 224]"
    using im(4) by auto
  obtain batch labels where r: "build_batch ops rs fs rest index = Inr (batch, labels)"
      "length batch = length rest" "\<forall>t \<in> set batch. nd_shape t = [3, 224, 224]"
    using Cons.IH Cons.prems by auto
  show ?case
    using p i t l r by (auto simp: list_get_def dict_get_def)
qed

lemma build_batch_short:
  assumes "list_all (\<lambda>(animal, files).
             index \<le> length files \<and> list_all (rgb_file fs) files \<and>
             map_of label_to_id_map animal \<noteq> None) animals"
    and "\<exists>(animal, files) \<in> set animals. length files = index"
  shows "build_batch ops rs fs animals index = Inl IndexError"
  using assms
proof (induction animals)
  case Nil
  then show ?case by simp
next
  case (Cons p rest)
  obtain animal files where p: "p = (animal, files)" by (cases p)
  show ?case
  proof (cases "length files = index")
    case True
    then show ?thesis using p by (simp add: list_get_def)
  next
    case False
    then have i: "index < length files" and f: "rgb_file fs (files ! index)"
      and l: "map_of label_to_id_map animal \<noteq> None"
      using Cons.prems p by (auto simp: list_all_length)
    obtain im where im: "decode fs (files ! index) = Some im" "0 < fst (im_size im)"
        "0 < snd (im_size im)" "im_bands im = 3"
      using f by (auto simp: rgb_file_def split: option.splits)
    have "3 \<le> im_bands im" using im(4) by simp
    from tensor_of_image [OF im(1) prod.collapse [symmetric] im(2,3) this, of ops rs]
    obtain t where t: "image_file_to_tensor ops rs fs (files ! index) = Inr t"
      by auto
    have "build_batch ops rs fs rest index = Inl IndexError"
      using Cons.IH Cons.prems p False by auto
    then show ?thesis
      using p i t l by (auto simp: list_get_def dict_get_def)
  qed
qed

lemma dataset_ok_mono: "dataset_ok fs animals m \<Longrightarrow> k \<le> m \<Longrightarrow> dataset_ok fs animals k"
  unfolding dataset_ok_def list_all_iff by fastforce

lemma training_step_ok:
  assumes "dataset_ok fs animals m" and "index < m"
  shows "\<exists>stacked labels. training_step rt ops rs fs animals s index =
     (case module_call rt s stacked labels of
        Inl e \<Rightarrow> Inl e
      | Inr (step_loss, s1) \<Rightarrow>
     (case optimizer_step rt s1 of
        Inl e \<Rightarrow> Inl e
      | Inr s2 \<Rightarrow>
     (case lazy_reset_grad rt s2 of
        Inl e \<Rightarrow> Inl e
      | Inr s3 \<Rightarrow> Inr (step_loss, s3))))"
proof -
  have ne: "animals \<noteq> []" using assms(1) by (simp add: dataset_ok_def)
  have "dataset_ok fs animals (Suc index)"
    using dataset_ok_mono [OF assms(1)] assms(2) by simp
  then obtain batch labels where b: "build_batch ops rs fs animals index = Inr (batch, labels)"
      "length batch = length animals" "\<forall>t \<in> set batch. nd_shape t = [3, 224, 224]"
    using build_batch_ok [of index fs animals ops rs] unfolding dataset_ok_def by blast
  have "batch \<noteq> []" using b(2) ne by auto
  moreover from this have "nd_shape (hd batch) = [3, 224, 224]"
    using b(3) by simp
  moreover have "map nd_shape batch = replicate (length batch) [3, 224, 224]"
    using b(3) by (simp add: map_const_replicate)
  ultimately obtain stacked where "np_stack batch = Inr stacked"
    by (simp add: np_stack_def)
  then show ?thesis
    using b(1) unfolding training_step_def by (simp del: build_batch.simps) blast
qed

lemma training_step_short:
  assumes "dataset_ok fs animals m" and "\<exists>(animal, files) \<in> set animals. length files = m"
  shows "training_step rt ops rs fs animals s m = Inl IndexError"
  using build_batch_short [of m fs animals ops rs] assms
  unfolding training_step_def dataset_ok_def by simp

lemma sample_loop_short:
  assumes ok: "dataset_ok fs animals m"
    and short: "\<exists>(animal, files) \<in> set animals. length files = m"
    and call: "\<forall>s batch labels. \<exists>r. module_call rt s batch labels = Inr r"
    and opt: "\<forall>s. \<exists>s'. optimizer_step rt s = Inr s'"
    and reset: "\<forall>s. \<exists>s'. lazy_reset_grad rt s = Inr s'"
    and "i \<le> m" and "m < n"
  shows "sample_loop rt ops rs fs animals [i..<n] loss s = Inl (IndexError, m)"
  using \<open>i \<le> m\<close>
proof (induction "m - i" arbitrary: i loss s)
  case 0
  then have "i = m" by simp
  then have "[i..<n] = m # [Suc m..<n]" using \<open>m < n\<close> by (simp add: upt_conv_Cons)
  then show ?case
    using training_step_short [OF ok short, of rt ops rs s] by simp
next
  case (Suc d)
  then have lt: "i < m" by simp
  then have u: "[i..<n] = i # [Suc i..<n]" using \<open>m < n\<close> by (simp add: upt_conv_Cons)
  obtain stacked labels where st: "training_step rt ops rs fs animals s i =
     (case module_call rt s stacked labels of
        Inl e \<Rightarrow> Inl e
      | Inr (step_loss, s1) \<Rightarrow>
     (case optimizer_step rt s1 of
        Inl e \<Rightarrow> Inl e
      | Inr s2 \<Rightarrow>
     (case lazy_reset_grad rt s2 of
        Inl e \<Rightarrow> Inl e
      | Inr s3 \<Rightarrow> Inr (step_loss, s3))))"
    using training_step_ok [OF ok lt, of rt ops rs s] by blast
  obtain l s1 where c: "module_call rt s stacked labels = Inr (l, s1)"
    using call by (metis surj_pair)
  obtain s2 where o: "optimizer_step rt s1 = Inr s2" using opt by blast
  obtain s3 where r: "lazy_reset_grad rt s2 = Inr s3" using reset by blast
  have "training_step rt ops rs fs animals s i = Inr (l, s3)"
    using st c o r by simp
  moreover have "sample_loop rt ops rs fs animals [Suc i..<n] (f_add ops loss l) s3 = Inl (IndexError, m)"
    using Suc.hyps(1) [of "Suc i"] Suc.hyps(2) lt by simp
  ultimately show ?case using u by simp
qed

lemma load_dataset_files_labels:
  "list_all (\<lambda>(animal, files). map_of label_to_id_map animal \<noteq> None) (load_dataset_files fs)"
  by (simp add: load_dataset_files_def label_to_id_map_def)

lemma load_dataset_files_ok:
  assumes "\<forall>(animal, files) \<in> set (load_dataset_files fs).
             m \<le> length files \<and> (\<forall>file \<in> set files. rgb_file fs file)"
  shows "dataset_ok fs (load_dataset_files fs) m"
proof -
  have "load_dataset_files fs \<noteq> []" by (simp add: load_dataset_files_def)
  then show ?thesis
    using assms load_dataset_files_labels [of fs]
    unfolding dataset_ok_def list_all_iff by fastforce
qed

text \<open>
  In a dataset of three-band images, with a runtime that does not fail, the run ends
  at the length of the shortest class list.
\<close>

lemma rgb_dataset_index_error:
  assumes "\<forall>(animal, files) \<in> set (load_dataset_files fs).
             m \<le> length files \<and> (\<forall>file \<in> set files. rgb_file fs file)"
    and "\<exists>(animal, files) \<in> set (load_dataset_files fs). length files = m"
    and "m < num_samples_per_class"
    and "\<forall>s. \<exists>s'. module_train rt s = Inr s'"
    and "\<forall>s batch labels. \<exists>r. module_call rt s batch labels = Inr r"
    and "\<forall>s. \<exists>s'. optimizer_step rt s = Inr s'"
    and "\<forall>s. \<exists>s'. lazy_reset_grad rt s = Inr s'"
  shows "training_loop rt ops rs fs (load_dataset_files fs) s0 = ([], Some (IndexError, 0, Some m))"
proof -
  have ok: "dataset_ok fs (load_dataset_files fs) m"
    using assms(1) load_dataset_files_ok by blast
  obtain s1 where t: "module_train rt s0 = Inr s1" using assms(4) by blast
  have "sample_loop rt ops rs fs (load_dataset_files fs) [0..<num_samples_per_class] (f_lit ops 0) s1
          = Inl (IndexError, m)"
    using sample_loop_short [OF ok assms(2,5,6,7) _ assms(3), of 0 ops rs "f_lit ops 0" s1]
    by simp
  then have "run_epoch rt ops rs fs (load_dataset_files fs) s0 = Inl (IndexError, Some m)"
    using t by (simp add: run_epoch_def)
  moreover have "[0..<num_epochs] = 0 # [1..<num_epochs]"
    by (simp add: num_epochs_def upt_conv_Cons)
  ultimately show ?thesis
    by (simp add: training_loop_def)
qed

text \<open>
  The same without any assumption on the images or on the runtime, but that no other
  exception ends the run first.
\<close>

lemma sample_loop_append:
  "sample_loop rt ops rs fs animals (xs @ ys) loss s =
     (case sample_loop rt ops rs fs animals xs loss s of
        Inl e \<Rightarrow> Inl e
      | Inr (loss', s') \<Rightarrow> sample_loop rt ops rs fs animals ys loss' s')"
  by (induction xs arbitrary: loss s) (auto split: sum.splits)

lemma build_batch_index_error:
  assumes "\<forall>(animal, files) \<in> set animals.
             m \<le> length files \<and> map_of label_to_id_map animal \<noteq> None"
    and "\<exists>(animal, files) \<in> set animals. length files = m"
    and "\<forall>(animal, files) \<in> set (takeWhile (\<lambda>(animal, files). length files \<noteq> m) animals).
           \<exists>t. image_file_to_tensor ops rs fs (files ! m) = Inr t"
  shows "build_batch ops rs fs animals m = Inl IndexError"
  using assms
proof (induction animals)
  case Nil
  then show ?case by simp
next
  case (Cons p rest)
  obtain animal files where p: "p = (animal, files)" by (cases p)
  show ?case
  proof (cases "length files = m")
    case True
    then show ?thesis using p by (simp add: list_get_def)
  next
    case False
    then have i: "m < length files" and l: "map_of label_to_id_map animal \<noteq> None"
      using Cons.prems(1) p by auto
    obtain t where t: "image_file_to_tensor ops rs fs (files ! m) = Inr t"
      using Cons.prems(3) p False by auto
    have "build_batch ops rs fs rest m = Inl IndexError"
      using Cons.IH Cons.prems p False by auto
    then show ?thesis
      using p i t l by (auto simp: list_get_def dict_get_def)
  qed
qed

lemma index_error_at_shortest:
  assumes "\<forall>(animal, files) \<in> set (load_dataset_files fs). m \<le> length files"
    and "\<exists>(animal, files) \<in> set (load_dataset_files fs). length files = m"
    and "m < num_samples_per_class"
    and "module_train rt s0 = Inr s1"
    and "sample_loop rt ops rs fs (load_dataset_files fs) [0..<m] (f_lit ops 0) s1 = Inr (loss, s2)"
    and "\<forall>(animal, files) \<in>
            set (takeWhile (\<lambda>(animal, files). length files \<noteq> m) (load_dataset_files fs)).
           \<exists>t. image_file_to_tensor ops rs fs (files ! m) = Inr t"
  shows "training_loop rt ops rs fs (load_dataset_files fs) s0 = ([], Some (IndexError, 0, Some m))"
proof -
  have "\<forall>(animal, files) \<in> set (load_dataset_files fs).
          m \<le> length files \<and> map_of label_to_id_map animal \<noteq> None"
    using assms(1) load_dataset_files_labels [of fs] unfolding list_all_iff by fastforce
  then have "build_batch ops rs fs (load_dataset_files fs) m = Inl IndexError"
    using assms(2,6) by (rule build_batch_index_error)
  then have step: "training_step rt ops rs fs (load_dataset_files fs) s2 m = Inl IndexError"
    by (simp add: training_step_def)
  have "[0..<num_samples_per_class] = [0..<m] @ [m..<num_samples_per_class]"
    using upt_add_eq_append [of 0 m "num_samples_per_class - m"] assms(3) by simp
  then have "[0..<num_samples_per_class] = [0..<m] @ m # [Suc m..<num_samples_per_class]"
    using assms(3) by (simp add: upt_conv_Cons)
  then have "sample_loop rt ops rs fs (load_dataset_files fs) [0..<num_samples_per_class]
               (f_lit ops 0) s1 = Inl (IndexError, m)"
    using assms(5) step by (simp add: sample_loop_append)
  then have "run_epoch rt ops rs fs (load_dataset_files fs) s0 = Inl (IndexError, Some m)"
    using assms(4) by (simp add: run_epoch_def)
  moreover have "[0..<num_epochs] = 0 # [1..<num_epochs]"
    by (simp add: num_epochs_def upt_conv_Cons)
  ultimately show ?thesis by (simp add: training_loop_def)
qed

lemma preprocessing_before_short:
  assumes "dataset_ok fs animals m"
  shows "\<forall>(animal, files) \<in> set (takeWhile (\<lambda>(animal, files). length files \<noteq> m) animals).
           \<exists>t. image_file_to_tensor ops rs fs (files ! m) = Inr t"
proof (intro ballI, clarify)
  fix animal files
  assume mem: "(animal, files) \<in> set (takeWhile (\<lambda>(animal, files). length files \<noteq> m) animals)"
  then have "(animal, files) \<in> set animals" and ne: "length files \<noteq> m"
    using set_takeWhileD [OF mem] by auto
  then have "m \<le> length files" and "list_all (rgb_file fs) files"
    using assms unfolding dataset_ok_def list_all_iff by auto
  then have "rgb_file fs (files ! m)"
    using ne by (simp add: list_all_length)
  then obtain im where im: "decode fs (files ! m) = Some im" "0 < fst (im_size im)"
      "0 < snd (im_size im)" "im_bands im = 3"
    by (auto simp: rgb_file_def split: option.splits)
  have "3 \<le> im_bands im" using im(4) by simp
  from tensor_of_image [OF im(1) prod.collapse [symmetric] im(2,3) this, of ops rs]
  show "\<exists>t. image_file_to_tensor ops rs fs (files ! m) = Inr t" by blast
qed

text \<open>
  C8 (as amended). A class whose directory does not exist gets the empty list, and
  loading the dataset raises nothing. Let \<open>m\<close> be the length of the shortest class
  list, with \<open>m < num_samples_per_class\<close>. If no other exception ends the run first,
  that is, \<^verbatim>\<open>model.train()\<close> and the steps at the indices below \<open>m\<close> succeed, and so
  does the preprocessing at index \<open>m\<close> for the classes listed before the first class
  of \<open>m\<close> files, then the training loop prints nothing and ends in its first epoch
  with IndexError at sample index \<open>m\<close>.
\<close>

theorem short_class_index_error:
  "(\<forall>animal \<in> set [''dog'', ''cat'', ''elephant'', ''cow''].
      listdir fs (''data/images/'' @ animal) = None \<longrightarrow>
      map_of (load_dataset_files fs) animal = Some [])
   \<and>
   ((\<forall>(animal, files) \<in> set (load_dataset_files fs). m \<le> length files) \<and>
    (\<exists>(animal, files) \<in> set (load_dataset_files fs). length files = m) \<and>
    m < num_samples_per_class \<and>
    module_train rt s0 = Inr s1 \<and>
    sample_loop rt ops rs fs (load_dataset_files fs) [0..<m] (f_lit ops 0) s1 = Inr (loss, s2) \<and>
    (\<forall>(animal, files) \<in>
        set (takeWhile (\<lambda>(animal, files). length files \<noteq> m) (load_dataset_files fs)).
       \<exists>t. image_file_to_tensor ops rs fs (files ! m) = Inr t)
    \<longrightarrow> training_loop rt ops rs fs (load_dataset_files fs) s0 = ([], Some (IndexError, 0, Some m)))"
proof (intro conjI impI)
  show "\<forall>animal \<in> set [''dog'', ''cat'', ''elephant'', ''cow''].
      listdir fs (''data/images/'' @ animal) = None \<longrightarrow>
      map_of (load_dataset_files fs) animal = Some []"
    by (simp add: load_dataset_files_def glob_star_def)
next
  assume "(\<forall>(animal, files) \<in> set (load_dataset_files fs). m \<le> length files) \<and>
    (\<exists>(animal, files) \<in> set (load_dataset_files fs). length files = m) \<and>
    m < num_samples_per_class \<and>
    module_train rt s0 = Inr s1 \<and>
    sample_loop rt ops rs fs (load_dataset_files fs) [0..<m] (f_lit ops 0) s1 = Inr (loss, s2) \<and>
    (\<forall>(animal, files) \<in>
        set (takeWhile (\<lambda>(animal, files). length files \<noteq> m) (load_dataset_files fs)).
       \<exists>t. image_file_to_tensor ops rs fs (files ! m) = Inr t)"
  then show "training_loop rt ops rs fs (load_dataset_files fs) s0 = ([], Some (IndexError, 0, Some m))"
    using index_error_at_shortest [of fs m rt s0 s1 ops rs loss s2] by blast
qed

section \<open>Runs on concrete datasets\<close>

lemma glob_star_dataset_fs:
  "glob_star (dataset_fs count img) (''data/images/'' @ a) =
     (case count a of
        None \<Rightarrow> []
      | Some n \<Rightarrow> map (\<lambda>i. ''data/images/'' @ a @ ''/img'' @ replicate i (CHR ''0'')) [0..<n])"
  by (simp add: glob_star_def dataset_fs_def split: option.splits)

lemma load_dataset_files_dataset_fs:
  "map (\<lambda>(animal, files). (animal, length files)) (load_dataset_files (dataset_fs count img)) =
     map (\<lambda>animal. (animal, case count animal of None \<Rightarrow> 0 | Some n \<Rightarrow> n))
       [''dog'', ''cat'', ''elephant'', ''cow'']"
  using glob_star_dataset_fs [of count img "''dog''"] glob_star_dataset_fs [of count img "''cat''"]
    glob_star_dataset_fs [of count img "''elephant''"] glob_star_dataset_fs [of count img "''cow''"]
  by (simp add: load_dataset_files_def split: option.splits)

lemma rgb_file_dataset_fs: "rgb_file (dataset_fs count (uniform_image 3 2 3 v)) file"
  by (simp add: rgb_file_def dataset_fs_def uniform_image_def)

lemma lengths_dataset_fs:
  assumes "(animal, files) \<in> set (load_dataset_files (dataset_fs count img))"
  shows "length files = (case count animal of None \<Rightarrow> 0 | Some n \<Rightarrow> n)
     \<and> animal \<in> set [''dog'', ''cat'', ''elephant'', ''cow'']"
proof -
  have "(animal, length files) \<in> set (map (\<lambda>(animal, files). (animal, length files))
          (load_dataset_files (dataset_fs count img)))"
    using assms by force
  then show ?thesis
    unfolding load_dataset_files_dataset_fs by auto
qed

lemma training_step_counting:
  assumes "dataset_ok fs animals m" and "index < m"
  shows "training_step counting_runtime ops rs fs animals s index = Inr (real s, Suc s)"
  using training_step_ok [OF assms, of counting_runtime ops rs s]
  by (auto simp: counting_runtime_def)

lemma sample_loop_counting:
  assumes "dataset_ok fs animals m" and "\<forall>i \<in> set idxs. i < m"
  shows "sample_loop counting_runtime real_ops rs fs animals idxs loss s =
     Inr (loss + real (length idxs) * real s + real (length idxs) * (real (length idxs) - 1) / 2,
          s + length idxs)"
  using assms(2)
proof (induction idxs arbitrary: loss s)
  case Nil
  then show ?case by simp
next
  case (Cons i rest)
  have "training_step counting_runtime real_ops rs fs animals s i = Inr (real s, Suc s)"
    using training_step_counting [OF assms(1)] Cons.prems by simp
  moreover have "f_add real_ops loss (real s) = loss + real s"
    by (simp add: real_ops_def)
  ultimately show ?case
    using Cons.IH [of "loss + real s" "Suc s"] Cons.prems
    by (simp add: field_simps)
qed

theorem short_class_index_error_witness:
  "map_of (load_dataset_files (dataset_fs (\<lambda>a. if a = ''cat'' then None else Some 20)
       (uniform_image 3 2 3 255))) ''cat'' = Some [] \<and>
   training_loop counting_runtime real_ops nearest
     (dataset_fs (\<lambda>a. if a = ''cat'' then Some 2 else Some 20) (uniform_image 3 2 3 255))
     (load_dataset_files
        (dataset_fs (\<lambda>a. if a = ''cat'' then Some 2 else Some 20) (uniform_image 3 2 3 255)))
     0 = ([], Some (IndexError, 0, Some 2))"
proof -
  let ?fa = "dataset_fs (\<lambda>a. if a = ''cat'' then None else Some 20) (uniform_image 3 2 3 255)"
  define fb where
    "fb = dataset_fs (\<lambda>a. if a = ''cat'' then Some 2 else Some 20) (uniform_image 3 2 3 255)"
  have a: "listdir ?fa (''data/images/'' @ ''cat'') = None"
    by (simp add: dataset_fs_def)
  have b0: "\<forall>(animal, files) \<in> set (load_dataset_files fb).
        2 \<le> length files \<and> (\<forall>file \<in> set files. rgb_file fb file)"
    unfolding fb_def
    using lengths_dataset_fs [of _ _ "\<lambda>a. if a = ''cat'' then Some 2 else Some 20"]
    by (auto simp: rgb_file_dataset_fs)
  then have b1: "\<forall>(animal, files) \<in> set (load_dataset_files fb). 2 \<le> length files"
    by auto
  have ok: "dataset_ok fb (load_dataset_files fb) 2"
    using b0 by (rule load_dataset_files_ok)
  have "(''cat'', glob_star fb ''data/images/cat'') \<in> set (load_dataset_files fb)"
    by (simp add: load_dataset_files_def)
  moreover have "length (glob_star fb ''data/images/cat'') = 2"
    using glob_star_dataset_fs [of "\<lambda>a. if a = ''cat'' then Some 2 else Some 20" _ "''cat''"]
    by (simp add: fb_def)
  ultimately have b2: "\<exists>(animal, files) \<in> set (load_dataset_files fb). length files = 2"
    by blast
  have b3: "2 < num_samples_per_class" by (simp add: num_samples_per_class_def)
  have b4: "module_train counting_runtime 0 = Inr 0" by (simp add: counting_runtime_def)
  have b5: "sample_loop counting_runtime real_ops nearest fb (load_dataset_files fb) [0..<2]
      (f_lit real_ops 0) 0 = Inr (f_lit real_ops 0 + real 2 * real 0 + real 2 * (real 2 - 1) / 2, 0 + 2)"
    using sample_loop_counting [OF ok, of "[0..<2]" nearest "f_lit real_ops 0" 0] by simp
  note b6 = preprocessing_before_short [OF ok, of real_ops nearest]
  have "training_loop counting_runtime real_ops nearest fb (load_dataset_files fb) 0
      = ([], Some (IndexError, 0, Some 2))"
    using short_class_index_error [of fb 2 counting_runtime 0 0 real_ops nearest] b1 b2 b3 b4 b5 b6
    by blast
  then show ?thesis
    using short_class_index_error [of ?fa 0 counting_runtime 0 0 real_ops nearest] a
    unfolding fb_def by simp
qed

text \<open>
  C8 (as stated) fails on a dataset of three-band images with 5 files for dog, 2 for
  cat and 20 for the other classes: dog has fewer than \<open>num_samples_per_class\<close>
  files, yet the run does not end at sample index 5, the first index out of range for
  dog; it ends at sample index 2, the length of the shortest list.
\<close>

theorem two_short_classes_counterexample:
  "map (\<lambda>(animal, files). (animal, length files))
     (load_dataset_files
        (dataset_fs (\<lambda>a. if a = ''dog'' then Some 5 else if a = ''cat'' then Some 2 else Some 20)
           (uniform_image 3 2 3 255))) =
     [(''dog'', 5), (''cat'', 2), (''elephant'', 20), (''cow'', 20)] \<and>
   training_loop counting_runtime real_ops nearest
     (dataset_fs (\<lambda>a. if a = ''dog'' then Some 5 else if a = ''cat'' then Some 2 else Some 20)
        (uniform_image 3 2 3 255))
     (load_dataset_files
        (dataset_fs (\<lambda>a. if a = ''dog'' then Some 5 else if a = ''cat'' then Some 2 else Some 20)
           (uniform_image 3 2 3 255)))
     0 = ([], Some (IndexError, 0, Some 2))"
proof -
  define count where
    "count = (\<lambda>a. if a = ''dog'' then Some 5 else if a = ''cat'' then Some 2 else Some (20::nat))"
  define fs where "fs = dataset_fs count (uniform_image 3 2 3 255)"
  have b1: "\<forall>(animal, files) \<in> set (load_dataset_files fs).
        2 \<le> length files \<and> (\<forall>file \<in> set files. rgb_file fs file)"
    unfolding fs_def using lengths_dataset_fs [of _ _ count]
    by (auto simp: rgb_file_dataset_fs count_def)
  have "(''cat'', glob_star fs ''data/images/cat'') \<in> set (load_dataset_files fs)"
    by (simp add: load_dataset_files_def)
  moreover have "length (glob_star fs ''data/images/cat'') = 2"
    using glob_star_dataset_fs [of count _ "''cat''"] by (simp add: fs_def count_def)
  ultimately have b2: "\<exists>(animal, files) \<in> set (load_dataset_files fs). length files = 2"
    by blast
  have b3: "2 < num_samples_per_class" by (simp add: num_samples_per_class_def)
  have "training_loop counting_runtime real_ops nearest fs (load_dataset_files fs) 0
      = ([], Some (IndexError, 0, Some 2))"
    by (rule rgb_dataset_index_error [OF b1 b2 b3]) (simp_all add: counting_runtime_def)
  moreover have "map (\<lambda>(animal, files). (animal, length files)) (load_dataset_files fs) =
     [(''dog'', 5), (''cat'', 2), (''elephant'', 20), (''cow'', 20)]"
    using load_dataset_files_dataset_fs [of count "uniform_image 3 2 3 255"]
    by (simp add: fs_def count_def)
  ultimately show ?thesis unfolding fs_def count_def by simp
qed

lemma run_epoch_counting:
  assumes "dataset_ok fs animals num_samples_per_class"
  shows "run_epoch counting_runtime real_ops rs fs animals s = Inr (20 * real s + 190, s + 20)"
proof -
  have "module_train counting_runtime s = Inr s" by (simp add: counting_runtime_def)
  moreover have "f_lit real_ops 0 = 0" by (simp add: real_ops_def)
  ultimately show ?thesis
    using sample_loop_counting [OF assms, of "[0..<num_samples_per_class]" rs 0 s]
    by (simp add: run_epoch_def num_samples_per_class_def)
qed

lemma full_dataset_ok:
  "dataset_ok (dataset_fs (\<lambda>a. Some 20) (uniform_image 3 2 3 255))
     (load_dataset_files (dataset_fs (\<lambda>a. Some 20) (uniform_image 3 2 3 255)))
     num_samples_per_class"
  using lengths_dataset_fs [of _ _ "\<lambda>a. Some 20"]
  by (intro load_dataset_files_ok) (auto simp: rgb_file_dataset_fs num_samples_per_class_def)

lemma full_dataset_run:
  "training_loop counting_runtime real_ops nearest
     (dataset_fs (\<lambda>a. Some 20) (uniform_image 3 2 3 255))
     (load_dataset_files (dataset_fs (\<lambda>a. Some 20) (uniform_image 3 2 3 255))) 0 =
   ([(1, 19 / 2), (2, 59 / 2), (3, 99 / 2), (4, 139 / 2), (5, 179 / 2)], None)"
proof -
  have "[0..<num_epochs] = [0, 1, 2, 3, 4]"
    by (simp add: num_epochs_def upt_rec)
  moreover have "f_div real_ops a (f_lit real_ops k) = a / k" for a k
    by (simp add: real_ops_def)
  ultimately show ?thesis
    by (simp add: training_loop_def run_epoch_counting [OF full_dataset_ok]
        num_samples_per_class_def)
qed

theorem one_mean_loss_per_epoch_witness:
  "\<exists>printed. training_loop counting_runtime real_ops nearest
     (dataset_fs (\<lambda>a. Some 20) (uniform_image 3 2 3 255))
     (load_dataset_files (dataset_fs (\<lambda>a. Some 20) (uniform_image 3 2 3 255))) 0 = (printed, None) \<and>
   length printed = num_epochs \<and>
   printed = [(1, 19 / 2), (2, 59 / 2), (3, 99 / 2), (4, 139 / 2), (5, 179 / 2)] \<and>
   (\<forall>k<length printed.
      printed ! k =
        (k + 1,
         foldl (+) 0
           (epoch_losses counting_runtime real_ops nearest
              (dataset_fs (\<lambda>a. Some 20) (uniform_image 3 2 3 255))
              (load_dataset_files (dataset_fs (\<lambda>a. Some 20) (uniform_image 3 2 3 255)))
              (epoch_start_state counting_runtime real_ops nearest
                 (dataset_fs (\<lambda>a. Some 20) (uniform_image 3 2 3 255))
                 (load_dataset_files (dataset_fs (\<lambda>a. Some 20) (uniform_image 3 2 3 255))) 0 k))
           / 20))"
  using one_mean_loss_per_epoch [OF full_dataset_run] full_dataset_run
  by (simp add: real_ops_def num_samples_per_class_def)

theorem batch_order_witness:
  "\<exists>batch labels. build_batch real_ops nearest
     (dataset_fs (\<lambda>a. Some 20) (uniform_image 3 2 3 255))
     (load_dataset_files (dataset_fs (\<lambda>a. Some 20) (uniform_image 3 2 3 255))) 7 = Inr (batch, labels) \<and>
     labels = [0, 1, 2, 3] \<and> length batch = 4"
proof -
  define fs where "fs = dataset_fs (\<lambda>a. Some 20) (uniform_image 3 2 3 255)"
  have "dataset_ok fs (load_dataset_files fs) (Suc 7)"
    using dataset_ok_mono [OF full_dataset_ok, of "Suc 7"]
    by (simp add: fs_def num_samples_per_class_def)
  then obtain batch labels where
    b: "build_batch real_ops nearest fs (load_dataset_files fs) 7 = Inr (batch, labels)"
    using build_batch_ok [of 7 fs "load_dataset_files fs" real_ops nearest]
    unfolding dataset_ok_def by blast
  show ?thesis
    using batch_order [OF b] b unfolding fs_def by auto
qed

section \<open>Properties of the inference verifier\<close>









end
